theory Spec2Isabelle
  imports
    Main
    "HOL-Library.Sublist"
    "HOL-Library.Char_ord"
    "HOL-Library.List_Lexorder"
begin

section \<open>JavaScript strings and the string methods the page calls\<close>

text \<open>
  The page \<^verbatim>\<open>web/app/page.tsx\<close> works on JavaScript strings. A string is modelled as
  a \<^typ>\<open>string\<close>, a list of 8-bit characters read as UTF-16 code units below 256
  (ASCII and Latin-1), so the model covers the strings whose code units all lie in that
  range. Comparison is by code unit (\<^verbatim>\<open>Char_ord\<close>) and lexicographic on lists
  (\<^verbatim>\<open>List_Lexorder\<close>), which is the order of JavaScript's \<^verbatim>\<open><\<close> on
  strings and of \<^verbatim>\<open>Array.prototype.sort\<close> without a comparator.
\<close>

type_synonym jsstring = string

text \<open>
  \<^verbatim>\<open>String.prototype.toLowerCase\<close> on this range: the letters A to Z (65 to 90) and
  the Latin-1 capitals 192 to 222 except the multiplication sign 215 move up by 32;
  every other code unit is unchanged.
\<close>

definition lowerChar :: "char \<Rightarrow> char" where
  "lowerChar c =
     (let n = (of_char c :: nat)
      in if (65 \<le> n \<and> n \<le> 90) \<or> (192 \<le> n \<and> n \<le> 222 \<and> n \<noteq> 215)
         then char_of (n + 32) else c)"

definition toLowerCase :: "jsstring \<Rightarrow> jsstring" where
  "toLowerCase s = map lowerChar s"

text \<open>
  \<^verbatim>\<open>String.prototype.trim\<close> removes leading and trailing white space and line
  terminators. Below 256 these are TAB, LF, VT, FF, CR, SPACE and NO-BREAK SPACE.
\<close>

definition isWhiteSpace :: "char \<Rightarrow> bool" where
  "isWhiteSpace c =
     (let n = (of_char c :: nat)
      in n = 9 \<or> n = 10 \<or> n = 11 \<or> n = 12 \<or> n = 13 \<or> n = 32 \<or> n = 160)"

definition trim :: "jsstring \<Rightarrow> jsstring" where
  "trim s = rev (dropWhile isWhiteSpace (rev (dropWhile isWhiteSpace s)))"

text \<open>
  \<^verbatim>\<open>s.includes(q)\<close>: \<open>q\<close> occurs in \<open>s\<close> as a contiguous run of code units,
  searched from position 0. The empty string occurs in every string.
\<close>

fun includes_str :: "jsstring \<Rightarrow> jsstring \<Rightarrow> bool" where
  "includes_str [] q = (q = [])"
| "includes_str (c # cs) q = (prefix q (c # cs) \<or> includes_str cs q)"

section \<open>Types of the page\<close>

text \<open>
  The interfaces \<^verbatim>\<open>KnowledgeItem\<close> and \<^verbatim>\<open>KnowledgeBase\<close>. The field
  \<^verbatim>\<open>id\<close> is named \<open>id_item\<close> (\<open>id\<close> is HOL's identity function).
  \<^verbatim>\<open>total\<close> is a JavaScript number that the page only displays.
\<close>

record KnowledgeItem =
  id_item :: jsstring
  category :: jsstring
  title :: jsstring
  content :: jsstring
  tags :: "jsstring list"

record KnowledgeBase =
  updated_at :: jsstring
  total :: int
  items :: "KnowledgeItem list"

section \<open>The component \<^verbatim>\<open>Home\<close>\<close>

text \<open>
  The state of \<^verbatim>\<open>Home\<close>: its four \<^verbatim>\<open>useState\<close> cells. \<open>data\<close> is
  \<open>None\<close> while the fetch of \<^verbatim>\<open>/knowledge.json\<close> has not succeeded.
\<close>

record Home_state =
  data :: "KnowledgeBase option"
  search :: jsstring
  activeCategory :: jsstring
  loading :: bool

definition initial_state :: Home_state where
  "initial_state = \<lparr>data = None, search = '''', activeCategory = ''All'', loading = True\<rparr>"

text \<open>
  \<^verbatim>\<open>new Set(xs)\<close> adds the elements of \<open>xs\<close> one by one; an element already
  present is not added again, and the set iterates in insertion order.
\<close>

definition set_add :: "'a list \<Rightarrow> 'a \<Rightarrow> 'a list" where
  "set_add s x = (if x \<in> set s then s else s @ [x])"

definition new_Set :: "'a list \<Rightarrow> 'a list" where
  "new_Set xs = foldl set_add [] xs"

text \<open>
  \<^verbatim>\<open>categories\<close>: the distinct categories of the items, spread into an array and
  sorted with the default comparison.
\<close>

definition categories :: "KnowledgeBase option \<Rightarrow> jsstring list" where
  "categories d =
     (case d of
        None \<Rightarrow> []
      | Some kb \<Rightarrow> sort (new_Set (map category (items kb))))"

text \<open>The predicate passed to \<^verbatim>\<open>data.items.filter\<close> in \<^verbatim>\<open>filtered\<close>.\<close>

definition matches :: "jsstring \<Rightarrow> jsstring \<Rightarrow> KnowledgeItem \<Rightarrow> bool" where
  "matches q active item =
     (let matchesCat = (active = ''All'' \<or> category item = active);
          matchesSearch =
            (q = [] \<or>
             includes_str (toLowerCase (title item)) q \<or>
             includes_str (toLowerCase (content item)) q \<or>
             list_ex (\<lambda>t. includes_str (toLowerCase t) q) (tags item))
      in matchesCat \<and> matchesSearch)"

definition filtered :: "KnowledgeBase option \<Rightarrow> jsstring \<Rightarrow> jsstring \<Rightarrow> KnowledgeItem list" where
  "filtered d srch active =
     (case d of
        None \<Rightarrow> []
      | Some kb \<Rightarrow>
          (let q = trim (toLowerCase srch)
           in filter (matches q active) (items kb)))"

text \<open>What the page displays for a state.\<close>

definition displayed :: "Home_state \<Rightarrow> KnowledgeItem list" where
  "displayed s = filtered (data s) (search s) (activeCategory s)"

definition countFor :: "KnowledgeBase option \<Rightarrow> jsstring \<Rightarrow> nat" where
  "countFor d cat =
     (case d of
        None \<Rightarrow> 0
      | Some kb \<Rightarrow> length (filter (\<lambda>i. category i = cat) (items kb)))"

text \<open>
  \<^verbatim>\<open>handleTagClick\<close> sets the search string and the active category; focusing the
  input changes no state cell.
\<close>

definition handleTagClick :: "jsstring \<Rightarrow> Home_state \<Rightarrow> Home_state" where
  "handleTagClick tag s = s\<lparr>search := tag, activeCategory := ''All''\<rparr>"

section \<open>Category configuration\<close>

text \<open>
  The visual configuration of a category. \<open>emoji\<close> holds a string of characters
  outside Latin-1; it is kept as the list of its Unicode code points. The page only
  renders it.
\<close>

record cfg =
  emoji :: "int list"
  pill :: jsstring
  header :: jsstring

text \<open>The own properties of the object literal \<^verbatim>\<open>CATEGORY_CONFIG\<close>, in source order.\<close>

definition CATEGORY_CONFIG :: "(jsstring \<times> cfg) list" where
  "CATEGORY_CONFIG =
    [
     (''Pediatricians & Specialists'',
        \<lparr>emoji = [0x1fa7a],
         pill = ''bg-pink-100 text-pink-800 border-pink-200'',
         header = ''from-pink-50 to-white border-pink-100''\<rparr>),
     (''OB/GYNs'',
        \<lparr>emoji = [0x1f930],
         pill = ''bg-purple-100 text-purple-800 border-purple-200'',
         header = ''from-purple-50 to-white border-purple-100''\<rparr>),
     (''Baby Classes & Activities'',
        \<lparr>emoji = [0x1f3b6],
         pill = ''bg-green-100 text-green-800 border-green-200'',
         header = ''from-green-50 to-white border-green-100''\<rparr>),
     (''Fitness & Wellness'',
        \<lparr>emoji = [0x1f4aa],
         pill = ''bg-orange-100 text-orange-800 border-orange-200'',
         header = ''from-orange-50 to-white border-orange-100''\<rparr>),
     (''Stroller-Friendly Dining'',
        \<lparr>emoji = [0x1f37d, 0xfe0f],
         pill = ''bg-sky-100 text-sky-800 border-sky-200'',
         header = ''from-sky-50 to-white border-sky-100''\<rparr>),
     (''Childcare & Nannies'',
        \<lparr>emoji = [0x1f3e0],
         pill = ''bg-yellow-100 text-yellow-800 border-yellow-200'',
         header = ''from-yellow-50 to-white border-yellow-100''\<rparr>),
     (''Baby Products & Gear'',
        \<lparr>emoji = [0x1f6cd, 0xfe0f],
         pill = ''bg-indigo-100 text-indigo-800 border-indigo-200'',
         header = ''from-indigo-50 to-white border-indigo-100''\<rparr>),
     (''Home Services'',
        \<lparr>emoji = [0x1f9f9],
         pill = ''bg-teal-100 text-teal-800 border-teal-200'',
         header = ''from-teal-50 to-white border-teal-100''\<rparr>),
     (''Beauty & Personal Care'',
        \<lparr>emoji = [0x2728],
         pill = ''bg-rose-100 text-rose-800 border-rose-200'',
         header = ''from-rose-50 to-white border-rose-100''\<rparr>),
     (''UWS Local Tips'',
        \<lparr>emoji = [0x1f4cd],
         pill = ''bg-amber-100 text-amber-800 border-amber-200'',
         header = ''from-amber-50 to-white border-amber-100''\<rparr>),
     (''Parenting Tips'',
        \<lparr>emoji = [0x1f4a1],
         pill = ''bg-cyan-100 text-cyan-800 border-cyan-200'',
         header = ''from-cyan-50 to-white border-cyan-100''\<rparr>)
    ]"

definition DEFAULT_CONFIG :: cfg where
  "DEFAULT_CONFIG =
     \<lparr>emoji = [0x1f4cc],
      pill = ''bg-gray-100 text-gray-700 border-gray-200'',
      header = ''from-gray-50 to-white border-gray-100''\<rparr>"

text \<open>
  \<^verbatim>\<open>CATEGORY_CONFIG\<close> is an object literal, so its prototype is
  \<^verbatim>\<open>Object.prototype\<close>, and the property read \<^verbatim>\<open>CATEGORY_CONFIG[category]\<close>
  follows the prototype chain: an own property first, then a property of
  \<^verbatim>\<open>Object.prototype\<close>, and \<^verbatim>\<open>undefined\<close> only when neither has the name.
  The properties of \<^verbatim>\<open>Object.prototype\<close> are eleven functions and the accessor
  \<^verbatim>\<open>__proto__\<close> (which yields \<^verbatim>\<open>Object.prototype\<close> itself); none of the
  values read is \<^verbatim>\<open>null\<close> or \<^verbatim>\<open>undefined\<close>.
\<close>

definition Object_prototype_names :: "jsstring list" where
  "Object_prototype_names =
     [''constructor'', ''__defineGetter__'', ''__defineSetter__'', ''hasOwnProperty'',
      ''__lookupGetter__'', ''__lookupSetter__'', ''isPrototypeOf'',
      ''propertyIsEnumerable'', ''toString'', ''valueOf'', ''__proto__'',
      ''toLocaleString'']"

text \<open>
  The values the read can give: \<^verbatim>\<open>undefined\<close>, a configuration object, or the
  value of the property of \<^verbatim>\<open>Object.prototype\<close> of the given name.
\<close>

datatype js_value = Undefined | Config cfg | Inherited jsstring

definition get_property :: "jsstring \<Rightarrow> js_value" where
  "get_property name =
     (case map_of CATEGORY_CONFIG name of
        Some c \<Rightarrow> Config c
      | None \<Rightarrow> if name \<in> set Object_prototype_names then Inherited name else Undefined)"

text \<open>
  \<^verbatim>\<open>getCfg\<close>: the operator \<^verbatim>\<open>??\<close> gives its right operand only when the left
  one is \<^verbatim>\<open>null\<close> or \<^verbatim>\<open>undefined\<close>.
\<close>

definition getCfg :: "jsstring \<Rightarrow> js_value" where
  "getCfg cat =
     (case get_property cat of
        Undefined \<Rightarrow> Config DEFAULT_CONFIG
      | v \<Rightarrow> v)"

section \<open>The extraction pipeline\<close>

text \<open>
  The pipeline is the script \<^verbatim>\<open>scripts/parse_chats.py\<close>, which is not among the
  sources. Its last step is written from the specification.
\<close>

text \<open>
  Modelled from the spec: the last step of \<^verbatim>\<open>scripts/parse_chats.py\<close> (section 4.6),
  which assembles the deduplicated items into the KnowledgeBase with \<open>total\<close> and
  \<open>updated_at\<close> set to the run's item count and completion time.
\<close>

definition assemble :: "KnowledgeItem list \<Rightarrow> jsstring \<Rightarrow> KnowledgeBase" where
  "assemble its completed =
     \<lparr>updated_at = completed, total = int (length its), items = its\<rparr>"

section \<open>Sample data\<close>

text \<open>
  A small knowledge base on which the definitions are evaluated: two items of a
  category the page configures and one of a category it does not.
\<close>

definition item_smith :: KnowledgeItem where
  "item_smith =
     \<lparr>id_item = ''1'', category = ''Pediatricians & Specialists'',
      title = ''Dr. Smith'', content = ''Very patient with toddlers'',
      tags = [''pediatrician'', ''UWS'']\<rparr>"

definition item_dentist :: KnowledgeItem where
  "item_dentist =
     \<lparr>id_item = ''2'', category = ''Dentists'',
      title = ''Kids dentist on Broadway'', content = ''Gentle with first visits'',
      tags = [''dentist'']\<rparr>"

definition item_jones :: KnowledgeItem where
  "item_jones =
     \<lparr>id_item = ''3'', category = ''Pediatricians & Specialists'',
      title = ''Dr. Jones'', content = ''Same-day sick visits'',
      tags = []\<rparr>"

definition example_kb :: KnowledgeBase where
  "example_kb =
     \<lparr>updated_at = ''2025-01-01'', total = 3,
      items = [item_smith, item_dentist, item_jones]\<rparr>"

definition example_state :: Home_state where
  "example_state =
     \<lparr>data = Some example_kb, search = ''jones'', activeCategory = ''Dentists'',
      loading = False\<rparr>"

section \<open>Facts about the string methods\<close>

lemma includes_str_iff_sublist: "includes_str s q \<longleftrightarrow> sublist q s"
proof (induction s)
  case Nil
  show ?case by simp
next
  case (Cons c cs)
  show ?case by (simp add: sublist_Cons_right Cons.IH)
qed

lemma trim_sublist: "sublist (trim s) s"
proof -
  have "sublist (rev (dropWhile isWhiteSpace (rev (dropWhile isWhiteSpace s))))
          (dropWhile isWhiteSpace s)"
    by (simp add: sublist_rev_left)
  moreover have "sublist (dropWhile isWhiteSpace s) s" by simp
  ultimately show ?thesis
    unfolding trim_def by (rule sublist_order.order.trans)
qed

lemma includes_str_trim: "includes_str s (trim s)"
  by (simp add: includes_str_iff_sublist trim_sublist)

lemma dropWhile_all: "(\<forall>x\<in>set (dropWhile P xs). P x) \<longleftrightarrow> (\<forall>x\<in>set xs. P x)"
proof
  assume a: "\<forall>x\<in>set (dropWhile P xs). P x"
  have "dropWhile P xs = []"
  proof (rule ccontr)
    assume ne: "dropWhile P xs \<noteq> []"
    then have "\<not> P (hd (dropWhile P xs))" by (rule hd_dropWhile)
    moreover have "hd (dropWhile P xs) \<in> set (dropWhile P xs)" using ne by simp
    ultimately show False using a by blast
  qed
  then show "\<forall>x\<in>set xs. P x" by (simp add: dropWhile_eq_Nil_conv)
next
  assume "\<forall>x\<in>set xs. P x"
  then show "\<forall>x\<in>set (dropWhile P xs). P x"
    using set_dropWhileD by fastforce
qed

lemma trim_empty_iff: "trim s = [] \<longleftrightarrow> list_all isWhiteSpace s"
  by (simp add: trim_def dropWhile_eq_Nil_conv list_all_iff dropWhile_all)

lemma of_char_shift:
  fixes c :: char
  assumes "(of_char c :: nat) \<le> 222"
  shows "(of_char (char_of (of_char c + 32 :: nat)) :: nat) = of_char c + 32"
proof -
  have "(of_char c + 32 :: nat) < 256" using assms by simp
  then show ?thesis by (simp add: of_char_of)
qed

text \<open>Lower-casing neither creates nor removes white space.\<close>

lemma isWhiteSpace_lowerChar: "isWhiteSpace (lowerChar c) = isWhiteSpace c"
proof -
  define n where "n = (of_char c :: nat)"
  show ?thesis
  proof (cases "(65 \<le> n \<and> n \<le> 90) \<or> (192 \<le> n \<and> n \<le> 222 \<and> n \<noteq> 215)")
    case True
    then have le: "n \<le> 222" by linarith
    have "lowerChar c = char_of (n + 32)"
      unfolding lowerChar_def Let_def n_def [symmetric] using True by (rule if_P)
    then have up: "(of_char (lowerChar c) :: nat) = n + 32"
      using of_char_shift [of c] le unfolding n_def by simp
    from True have "\<not> isWhiteSpace c"
      unfolding isWhiteSpace_def Let_def n_def [symmetric] by linarith
    moreover from True have "\<not> isWhiteSpace (lowerChar c)"
      unfolding isWhiteSpace_def Let_def up by linarith
    ultimately show ?thesis by simp
  next
    case False
    have "lowerChar c = c"
      unfolding lowerChar_def Let_def n_def [symmetric] using False by (rule if_not_P)
    then show ?thesis by simp
  qed
qed

lemma trim_toLowerCase_empty: "trim s = [] \<Longrightarrow> trim (toLowerCase s) = []"
  by (simp add: trim_empty_iff toLowerCase_def list_all_iff isWhiteSpace_lowerChar)

lemma list_less_code_units:
  "(a::string) < b \<longleftrightarrow> (a, b) \<in> lexord {(u, v). (of_char u :: nat) < of_char v}"
  by (simp add: list_less_def less_char_def)

section \<open>Facts about \<^verbatim>\<open>new Set\<close> and counting\<close>

lemma set_foldl_set_add: "set (foldl set_add acc xs) = set acc \<union> set xs"
  by (induction xs arbitrary: acc) (auto simp: set_add_def)

lemma distinct_foldl_set_add: "distinct acc \<Longrightarrow> distinct (foldl set_add acc xs)"
  by (induction xs arbitrary: acc) (auto simp: set_add_def)

lemma set_new_Set: "set (new_Set xs) = set xs"
  by (simp add: new_Set_def set_foldl_set_add)

lemma distinct_new_Set: "distinct (new_Set xs)"
  by (simp add: new_Set_def distinct_foldl_set_add)

lemma sum_list_indicator:
  "distinct cs \<Longrightarrow>
   sum_list (map (\<lambda>c. if a = c then 1 else 0) cs) = (if a \<in> set cs then 1 else (0::nat))"
  by (induction cs) auto

lemma sum_counts:
  "distinct cs \<Longrightarrow> f ` set xs \<subseteq> set cs \<Longrightarrow>
   sum_list (map (\<lambda>c. length (filter (\<lambda>i. f i = c) xs)) cs) = length xs"
proof (induction xs)
  case Nil
  show ?case by simp
next
  case (Cons x xs)
  have split: "(\<lambda>c. length (filter (\<lambda>i. f i = c) (x # xs))) =
        (\<lambda>c. (if f x = c then 1 else 0) + length (filter (\<lambda>i. f i = c) xs))"
    by (rule ext) simp
  have "sum_list (map (\<lambda>c. length (filter (\<lambda>i. f i = c) (x # xs))) cs) =
        sum_list (map (\<lambda>c. if f x = c then 1 else 0) cs) +
        sum_list (map (\<lambda>c. length (filter (\<lambda>i. f i = c) xs)) cs)"
    unfolding split by (simp add: sum_list_addf)
  also have "sum_list (map (\<lambda>c. if f x = c then 1 else 0) cs) = (1::nat)"
    using Cons.prems by (simp add: sum_list_indicator)
  also have "sum_list (map (\<lambda>c. length (filter (\<lambda>i. f i = c) xs)) cs) = length xs"
    using Cons.prems by (intro Cons.IH) auto
  finally show ?case by simp
qed

section \<open>The displayed list\<close>

text \<open>Before the data has arrived the three derived values are empty.\<close>

lemma no_data:
  "categories None = [] \<and> filtered None srch active = [] \<and> countFor None cat = 0 \<and>
   displayed initial_state = []"
  by (simp add: categories_def filtered_def countFor_def displayed_def initial_state_def)

text \<open>
  C8: for a loaded knowledge base, any search string and any active category, the list
  \<^verbatim>\<open>filtered\<close> is an order-preserving subsequence of \<^verbatim>\<open>data.items\<close>; when the
  trimmed search string is empty and the active category is \<^verbatim>\<open>'All'\<close>, it is
  \<^verbatim>\<open>data.items\<close> itself.
\<close>

theorem filtered_subseq_of_items:
  "subseq (filtered (Some kb) srch active) (items kb) \<and>
   (trim srch = [] \<and> active = ''All'' \<longrightarrow> filtered (Some kb) srch active = items kb)"
proof
  show "subseq (filtered (Some kb) srch active) (items kb)"
    by (simp add: filtered_def)
next
  show "trim srch = [] \<and> active = ''All'' \<longrightarrow> filtered (Some kb) srch active = items kb"
  proof
    assume a: "trim srch = [] \<and> active = ''All''"
    then have q: "trim (toLowerCase srch) = []" by (simp add: trim_toLowerCase_empty)
    have "\<And>item. matches [] ''All'' item" by (simp add: matches_def)
    then show "filtered (Some kb) srch active = items kb"
      using a q by (simp add: filtered_def)
  qed
qed

theorem filtered_subseq_of_items_witness:
  "trim ''  '' = [] \<and>
   filtered (Some example_kb) ''  '' ''All'' = items example_kb \<and>
   subseq (filtered (Some example_kb) ''  '' ''All'') (items example_kb) \<and>
   filtered (Some example_kb) ''  JONES '' ''All'' = [item_jones]"
proof -
  have h: "trim ''  '' = [] \<and> ''All'' = ''All''"
    by (simp add: trim_def isWhiteSpace_def)
  from filtered_subseq_of_items [of example_kb "''  ''" "''All''"] h
  have "filtered (Some example_kb) ''  '' ''All'' = items example_kb"
    and "subseq (filtered (Some example_kb) ''  '' ''All'') (items example_kb)"
    by blast+
  moreover have "filtered (Some example_kb) ''  JONES '' ''All'' = [item_jones]"
    by code_simp
  ultimately show ?thesis using h by blast
qed

section \<open>Clicking a tag\<close>

lemma matches_own_tag:
  assumes "tag \<in> set (tags item)"
  shows "matches (trim (toLowerCase tag)) ''All'' item"
proof -
  have "includes_str (toLowerCase tag) (trim (toLowerCase tag))"
    by (rule includes_str_trim)
  then have "list_ex (\<lambda>t. includes_str (toLowerCase t) (trim (toLowerCase tag))) (tags item)"
    using assms by (auto simp: list_ex_iff)
  then show ?thesis by (simp add: matches_def)
qed

text \<open>
  C9: for a loaded knowledge base, an item of it and a tag of that item,
  \<^verbatim>\<open>handleTagClick(tag)\<close> sets the search string to the tag and the active category
  to \<^verbatim>\<open>'All'\<close> and leaves the data as it is; the displayed list is then the items
  that match the lower-cased, trimmed tag under \<^verbatim>\<open>'All'\<close>, and the item is one of
  them, because the lower-cased, trimmed tag is a substring of the item's own
  lower-cased tag.
\<close>

theorem tag_click_shows_item:
  assumes "data s = Some kb" and "item \<in> set (items kb)" and "tag \<in> set (tags item)"
  shows "search (handleTagClick tag s) = tag \<and>
         activeCategory (handleTagClick tag s) = ''All'' \<and>
         data (handleTagClick tag s) = data s \<and>
         loading (handleTagClick tag s) = loading s \<and>
         displayed (handleTagClick tag s) =
           filter (matches (trim (toLowerCase tag)) ''All'') (items kb) \<and>
         includes_str (toLowerCase tag) (trim (toLowerCase (search (handleTagClick tag s)))) \<and>
         matches (trim (toLowerCase (search (handleTagClick tag s))))
           (activeCategory (handleTagClick tag s)) item \<and>
         item \<in> set (displayed (handleTagClick tag s))"
proof -
  have st: "search (handleTagClick tag s) = tag"
    "activeCategory (handleTagClick tag s) = ''All''"
    "data (handleTagClick tag s) = data s"
    "loading (handleTagClick tag s) = loading s"
    by (simp_all add: handleTagClick_def)
  have m: "matches (trim (toLowerCase tag)) ''All'' item"
    using assms(3) by (rule matches_own_tag)
  have d: "displayed (handleTagClick tag s) =
        filter (matches (trim (toLowerCase tag)) ''All'') (items kb)"
    using assms(1) by (simp add: displayed_def st filtered_def)
  have i: "item \<in> set (displayed (handleTagClick tag s))"
    using assms(2) m by (simp add: d)
  have sub: "includes_str (toLowerCase tag) (trim (toLowerCase tag))"
    by (rule includes_str_trim)
  from st d i m sub show ?thesis by simp
qed

theorem tag_click_shows_item_witness:
  "data example_state = Some example_kb \<and>
   item_smith \<in> set (items example_kb) \<and>
   ''UWS'' \<in> set (tags item_smith) \<and>
   search (handleTagClick ''UWS'' example_state) = ''UWS'' \<and>
   activeCategory (handleTagClick ''UWS'' example_state) = ''All'' \<and>
   displayed (handleTagClick ''UWS'' example_state) = [item_smith] \<and>
   item_smith \<in> set (displayed (handleTagClick ''UWS'' example_state)) \<and>
   displayed example_state = []"
proof -
  have a: "data example_state = Some example_kb" by (simp add: example_state_def)
  have b: "item_smith \<in> set (items example_kb)" by (simp add: example_kb_def)
  have c: "''UWS'' \<in> set (tags item_smith)" by (simp add: item_smith_def)
  have d: "displayed example_state = []" by code_simp
  have f: "filter (matches (trim (toLowerCase ''UWS'')) ''All'') (items example_kb) =
           [item_smith]"
    by code_simp
  note t = tag_click_shows_item [OF a b c]
  from t have s: "search (handleTagClick ''UWS'' example_state) = ''UWS''"
    and ac: "activeCategory (handleTagClick ''UWS'' example_state) = ''All''"
    and i: "item_smith \<in> set (displayed (handleTagClick ''UWS'' example_state))"
    by blast+
  from t have "displayed (handleTagClick ''UWS'' example_state) =
      filter (matches (trim (toLowerCase ''UWS'')) ''All'') (items example_kb)"
    by blast
  then have e: "displayed (handleTagClick ''UWS'' example_state) = [item_smith]"
    by (simp only: f)
  from a b c s ac e i d show ?thesis by blast
qed

section \<open>The category strip\<close>

text \<open>
  C10: for a loaded knowledge base, \<^verbatim>\<open>categories\<close> holds each category occurring in
  \<^verbatim>\<open>data.items\<close> exactly once, in increasing lexicographic order of code units, and
  the counts \<^verbatim>\<open>countFor\<close> of these categories add up to the number of items.
\<close>

theorem categories_distinct_sorted_counts:
  "distinct (categories (Some kb)) \<and>
   sorted (categories (Some kb)) \<and>
   sorted_wrt (\<lambda>a b. (a, b) \<in> lexord {(u, v). (of_char u :: nat) < of_char v})
     (categories (Some kb)) \<and>
   set (categories (Some kb)) = category ` set (items kb) \<and>
   sum_list (map (countFor (Some kb)) (categories (Some kb))) = length (items kb)"
proof -
  let ?cs = "categories (Some kb)"
  have cs: "?cs = sort (new_Set (map category (items kb)))"
    by (simp add: categories_def)
  have d: "distinct ?cs" by (simp add: cs distinct_new_Set)
  have s: "sorted ?cs" by (simp add: cs)
  have st: "set ?cs = category ` set (items kb)" by (simp add: cs set_new_Set)
  have "sorted_wrt (<) ?cs" using d s by (simp add: strict_sorted_iff)
  then have l: "sorted_wrt (\<lambda>a b. (a, b) \<in> lexord {(u, v). (of_char u :: nat) < of_char v}) ?cs"
    by (rule sorted_wrt_mono_rel [rotated]) (simp add: list_less_code_units)
  have cf: "countFor (Some kb) = (\<lambda>c. length (filter (\<lambda>i. category i = c) (items kb)))"
    by (rule ext) (simp add: countFor_def)
  have sm: "sum_list (map (countFor (Some kb)) ?cs) = length (items kb)"
    unfolding cf using d st by (intro sum_counts) auto
  from d s l st sm show ?thesis by blast
qed

theorem categories_distinct_sorted_counts_witness:
  "categories (Some example_kb) = [''Dentists'', ''Pediatricians & Specialists''] \<and>
   map (countFor (Some example_kb)) (categories (Some example_kb)) = [1, 2] \<and>
   sum_list (map (countFor (Some example_kb)) (categories (Some example_kb))) = 3"
proof -
  have c: "categories (Some example_kb) = [''Dentists'', ''Pediatricians & Specialists'']"
    by code_simp
  have m: "map (countFor (Some example_kb)) (categories (Some example_kb)) = [1, 2]"
    by code_simp
  have l: "length (items example_kb) = 3" by (simp add: example_kb_def)
  from categories_distinct_sorted_counts [of example_kb] l
  have "sum_list (map (countFor (Some example_kb)) (categories (Some example_kb))) = 3"
    by simp
  with c m show ?thesis by blast
qed

section \<open>Unrecognized categories\<close>

text \<open>
  What \<^verbatim>\<open>getCfg\<close> returns, by the three cases of the property read: the configured
  object for an own property, the default for a name that neither
  \<^verbatim>\<open>CATEGORY_CONFIG\<close> nor \<^verbatim>\<open>Object.prototype\<close> has, and the inherited member for
  a name of \<^verbatim>\<open>Object.prototype\<close>. It never returns \<^verbatim>\<open>undefined\<close>.
\<close>

lemma getCfg_own:
  "map_of CATEGORY_CONFIG c = Some v \<Longrightarrow> getCfg c = Config v"
  by (simp add: getCfg_def get_property_def)

lemma getCfg_default:
  "map_of CATEGORY_CONFIG c = None \<Longrightarrow> c \<notin> set Object_prototype_names \<Longrightarrow>
   getCfg c = Config DEFAULT_CONFIG"
  by (simp add: getCfg_def get_property_def)

lemma getCfg_inherited:
  "map_of CATEGORY_CONFIG c = None \<Longrightarrow> c \<in> set Object_prototype_names \<Longrightarrow>
   getCfg c = Inherited c"
  by (simp add: getCfg_def get_property_def)

lemma getCfg_defined: "getCfg c \<noteq> Undefined"
  by (simp add: getCfg_def get_property_def split: option.split js_value.split)

lemma getCfg_unrecognized_example: "getCfg ''Dentists'' = Config DEFAULT_CONFIG"
  by (simp add: getCfg_def get_property_def CATEGORY_CONFIG_def Object_prototype_names_def)

lemma getCfg_inherited_names:
  "list_all (\<lambda>name. getCfg name = Inherited name) Object_prototype_names"
  by (simp add: getCfg_def get_property_def CATEGORY_CONFIG_def Object_prototype_names_def)

text \<open>
  The filter predicate does not look at the category when the active category is
  \<^verbatim>\<open>'All'\<close>, so an item of any category is displayed when the search matches.
\<close>

lemma matches_All_any_category:
  "matches q ''All'' (item\<lparr>category := c\<rparr>) = matches q ''All'' item"
  by (simp add: matches_def)

lemma filtered_All_keeps_match:
  "item \<in> set (items kb) \<Longrightarrow> matches (trim (toLowerCase srch)) ''All'' item \<Longrightarrow>
   item \<in> set (filtered (Some kb) srch ''All'')"
  by (simp add: filtered_def)

text \<open>
  C4: for every category string that is not a key of \<^verbatim>\<open>CATEGORY_CONFIG\<close>,
  \<^verbatim>\<open>getCfg\<close> is claimed to return \<^verbatim>\<open>DEFAULT_CONFIG\<close>. The category
  \<^verbatim>\<open>'constructor'\<close> is not a key of \<^verbatim>\<open>CATEGORY_CONFIG\<close>, yet the read finds
  \<^verbatim>\<open>Object.prototype.constructor\<close>, which is not \<^verbatim>\<open>undefined\<close>, so
  \<^verbatim>\<open>getCfg\<close> returns that function and not the default configuration.
\<close>

theorem getCfg_constructor:
  "map_of CATEGORY_CONFIG ''constructor'' = None \<and>
   getCfg ''constructor'' = Inherited ''constructor'' \<and>
   getCfg ''constructor'' \<noteq> Config DEFAULT_CONFIG"
  by (simp add: getCfg_def get_property_def CATEGORY_CONFIG_def Object_prototype_names_def)

section \<open>The assembled knowledge base\<close>

text \<open>
  C2: in the KnowledgeBase the pipeline assembles, \<open>total\<close> equals the length of
  \<open>items\<close>.
\<close>

theorem assemble_total:
  "total (assemble its completed) = int (length (items (assemble its completed))) \<and>
   items (assemble its completed) = its"
  by (simp add: assemble_def)

theorem assemble_total_witness:
  "total (assemble [item_smith, item_dentist] ''2025-01-01'') = 2"
  using assemble_total [of "[item_smith, item_dentist]" "''2025-01-01''"] by simp

end
